theory Spec2Isabelle
  imports Main
begin

section \<open>Strings\<close>

text \<open>
  JavaScript strings are modelled as \<^typ>\<open>string\<close>, one character per code unit; the
  model covers text whose code units lie below 256. In that range \<open>toLowerCase\<close> changes
  the letters \<open>A\<close>..\<open>Z\<close> and the accented capitals \<open>0xC0\<close>..\<open>0xD6\<close> and \<open>0xD8\<close>..\<open>0xDE\<close>,
  and \<open>trim\<close> strips tab, line feed, vertical tab, form feed, carriage return, space and
  the no-break space \<open>0xA0\<close>.
\<close>

fun startsWith :: "string \<Rightarrow> string \<Rightarrow> bool" where
  "startsWith s [] = True"
| "startsWith [] (k # ks) = False"
| "startsWith (c # cs) (k # ks) = (c = k \<and> startsWith cs ks)"

fun includes_str :: "string \<Rightarrow> string \<Rightarrow> bool" where
  "includes_str [] kw = (kw = [])"
| "includes_str (c # cs) kw = (startsWith (c # cs) kw \<or> includes_str cs kw)"

definition upper_letters :: string where
  "upper_letters = ''ABCDEFGHIJKLMNOPQRSTUVWXYZ'' @
     [CHR 0xC0, CHR 0xC1, CHR 0xC2, CHR 0xC3, CHR 0xC4, CHR 0xC5, CHR 0xC6,
      CHR 0xC7, CHR 0xC8, CHR 0xC9, CHR 0xCA, CHR 0xCB, CHR 0xCC, CHR 0xCD,
      CHR 0xCE, CHR 0xCF, CHR 0xD0, CHR 0xD1, CHR 0xD2, CHR 0xD3, CHR 0xD4,
      CHR 0xD5, CHR 0xD6, CHR 0xD8, CHR 0xD9, CHR 0xDA, CHR 0xDB, CHR 0xDC,
      CHR 0xDD, CHR 0xDE]"

definition lower_letters :: string where
  "lower_letters = ''abcdefghijklmnopqrstuvwxyz'' @
     [CHR 0xE0, CHR 0xE1, CHR 0xE2, CHR 0xE3, CHR 0xE4, CHR 0xE5, CHR 0xE6,
      CHR 0xE7, CHR 0xE8, CHR 0xE9, CHR 0xEA, CHR 0xEB, CHR 0xEC, CHR 0xED,
      CHR 0xEE, CHR 0xEF, CHR 0xF0, CHR 0xF1, CHR 0xF2, CHR 0xF3, CHR 0xF4,
      CHR 0xF5, CHR 0xF6, CHR 0xF8, CHR 0xF9, CHR 0xFA, CHR 0xFB, CHR 0xFC,
      CHR 0xFD, CHR 0xFE]"

definition lower_char :: "char \<Rightarrow> char" where
  "lower_char c =
     (case map_of (zip upper_letters lower_letters) c of
        Some l \<Rightarrow> l
      | None \<Rightarrow> c)"

definition toLowerCase :: "string \<Rightarrow> string" where
  "toLowerCase s = map lower_char s"

definition is_space :: "char \<Rightarrow> bool" where
  "is_space c =
     (c \<in> set [CHR 0x09, CHR 0x0A, CHR 0x0B, CHR 0x0C, CHR 0x0D, CHR '' '', CHR 0xA0])"

definition trim :: "string \<Rightarrow> string" where
  "trim s = rev (dropWhile is_space (rev (dropWhile is_space s)))"

definition digit_char :: "nat \<Rightarrow> char" where
  "digit_char d = ''0123456789'' ! d"

text \<open>Decimal rendering of a number inside a template literal.\<close>

function show_nat :: "nat \<Rightarrow> string" where
  "show_nat n = (if n < 10 then [digit_char n] else show_nat (n div 10) @ [digit_char (n mod 10)])"
  by pat_completeness auto
termination
  by (relation "measure (\<lambda>n. n)") auto

section \<open>Data model\<close>

datatype json =
    JNull
  | JBool bool
  | JNum int
  | JStr string
  | JArr "json list"
  | JObj "(string \<times> json) list"

datatype projectType = Frontend | Backend | Fullstack

record GeneratedFile =
  path :: string
  content :: string
  exports :: "string list option"

record ValidationError =
  err_file :: string
  err_message :: string

text \<open>
  Of the blueprint only the fields read by the stages under study are kept: the project
  name and the page list (which may be missing, \<open>pages?.length\<close>).
\<close>

record ProjectBlueprint =
  projectName :: string
  pages :: "json list option"

text \<open>
  \<open>WebsiteState\<close>: the record threaded through the graph. \<open>files\<close> is a JavaScript
  \<open>Map\<close>, kept as an association list in insertion order with unique keys.
  \<open>requestIntent\<close> is a string that may be unset.
\<close>

record WebsiteState =
  userPrompt :: string
  projectType :: projectType
  requestIntent :: "string option"
  isModification :: "bool option"
  chatResponse :: "string option"
  blueprint :: "ProjectBlueprint option"
  files :: "(string \<times> GeneratedFile) list"
  errors :: "ValidationError list"
  iterationCount :: nat
  currentPhase :: string
  isComplete :: bool
  messages :: "string list"

text \<open>
  A stage returns a \<open>Partial<WebsiteState>\<close>: every scalar field is optional, the
  \<open>files\<close> and \<open>messages\<close> contributions are empty when the stage does not mention them.
\<close>

record update =
  u_requestIntent :: "string option"
  u_isModification :: "bool option"
  u_chatResponse :: "string option"
  u_blueprint :: "ProjectBlueprint option"
  u_files :: "(string \<times> GeneratedFile) list"
  u_errors :: "ValidationError list option"
  u_iterationCount :: "nat option"
  u_currentPhase :: "string option"
  u_isComplete :: "bool option"
  u_messages :: "string list"

definition empty_update :: update where
  "empty_update = \<lparr> u_requestIntent = None, u_isModification = None, u_chatResponse = None,
     u_blueprint = None, u_files = [], u_errors = None, u_iterationCount = None,
     u_currentPhase = None, u_isComplete = None, u_messages = [] \<rparr>"

fun upsert :: "'k \<Rightarrow> 'v \<Rightarrow> ('k \<times> 'v) list \<Rightarrow> ('k \<times> 'v) list" where
  "upsert k v [] = [(k, v)]"
| "upsert k v ((k', v') # kvs) = (if k = k' then (k, v) # kvs else (k', v') # upsert k v kvs)"

definition replace_with :: "'a option \<Rightarrow> 'a \<Rightarrow> 'a" where
  "replace_with new old = (case new of None \<Rightarrow> old | Some x \<Rightarrow> x)"

definition replace_opt :: "'a option \<Rightarrow> 'a option \<Rightarrow> 'a option" where
  "replace_opt new old = (case new of None \<Rightarrow> old | Some x \<Rightarrow> Some x)"

text \<open>
  Modelled from the spec: the state annotation \<open>WebsiteStateAnnotation\<close> (module
  \<open>graph-state\<close>) that tells the graph how a partial result is merged is not part of the
  sources at hand. The spec gives the merge: a scalar field of the partial result
  replaces the prior value and is retained otherwise; \<open>files\<close> entries are upserted by
  key; \<open>messages\<close> are appended; \<open>errors\<close> are replaced in full.
\<close>

definition merge :: "WebsiteState \<Rightarrow> update \<Rightarrow> WebsiteState" where
  "merge s u = s \<lparr>
     requestIntent := replace_opt (u_requestIntent u) (requestIntent s),
     isModification := replace_opt (u_isModification u) (isModification s),
     chatResponse := replace_opt (u_chatResponse u) (chatResponse s),
     blueprint := replace_opt (u_blueprint u) (blueprint s),
     files := fold (\<lambda>(k, v). upsert k v) (u_files u) (files s),
     errors := replace_with (u_errors u) (errors s),
     iterationCount := replace_with (u_iterationCount u) (iterationCount s),
     currentPhase := replace_with (u_currentPhase u) (currentPhase s),
     isComplete := replace_with (u_isComplete u) (isComplete s),
     messages := messages s @ u_messages u \<rparr>"

section \<open>The workflow graph\<close>

datatype node =
    START
  | Intent_router
  | Chat_response
  | Modification_analyzer
  | Blueprint_step
  | Structure_step
  | Core_step
  | Components_step
  | Pages_step
  | Validation_step
  | Repair_step
  | END

text \<open>The routing function of the conditional edge leaving \<open>intent_router\<close>.\<close>

definition route_intent :: "WebsiteState \<Rightarrow> string" where
  "route_intent state =
     (if requestIntent state = Some ''question'' \<or> requestIntent state = Some ''explain''
      then ''chat_response''
      else if requestIntent state = Some ''modify'' then ''modification_analyzer''
      else ''blueprint_step'')"

definition intent_path_map :: "(string \<times> node) list" where
  "intent_path_map =
     [(''chat_response'', Chat_response),
      (''modification_analyzer'', Modification_analyzer),
      (''blueprint_step'', Blueprint_step)]"

text \<open>The routing function of the conditional edge leaving \<open>validation_step\<close>.\<close>

definition route_validation :: "WebsiteState \<Rightarrow> string" where
  "route_validation state =
     (if length (errors state) = 0 then ''end''
      else if iterationCount state \<ge> 3 then ''end''
      else ''repair_step'')"

definition validation_path_map :: "(string \<times> node) list" where
  "validation_path_map = [(''repair_step'', Repair_step), (''end'', END)]"

text \<open>
  The edges added in \<open>buildGraph\<close>. A conditional edge looks the key returned by its
  routing function up in its path map; \<open>None\<close> stands for a key without a target.
\<close>

fun next_node :: "node \<Rightarrow> WebsiteState \<Rightarrow> node option" where
  "next_node START state = Some Intent_router"
| "next_node Intent_router state = map_of intent_path_map (route_intent state)"
| "next_node Chat_response state = Some END"
| "next_node Modification_analyzer state = Some Repair_step"
| "next_node Blueprint_step state = Some Structure_step"
| "next_node Structure_step state = Some Core_step"
| "next_node Core_step state = Some Components_step"
| "next_node Components_step state = Some Pages_step"
| "next_node Pages_step state = Some Validation_step"
| "next_node Validation_step state = map_of validation_path_map (route_validation state)"
| "next_node Repair_step state = Some Validation_step"
| "next_node END state = None"

section \<open>The world outside the state\<close>

text \<open>
  A request to the text-generation service either throws (with the error's message) or
  returns a completion whose message content may be missing. The service is an oracle:
  \<open>llm w k\<close> is the outcome of the \<open>k\<close>-th request issued in the process, and
  \<open>llm_calls\<close> counts the requests issued so far. Prompt texts only feed the oracle and
  are not modelled; pauses between attempts have no effect on any value.

  The module-level variables of the sources are fields of the world as well: the list
  of credentials (every module builds the same list from the same environment
  variables), one key index per module, the selection cache of \<open>UIService\<close>, and the two
  registered listeners of the graph module. A listener is identified by a number; the
  calls it received are logged.
\<close>

datatype exn = Error string | GraphRecursionError

datatype llm_result = Throws string | Content "string option"

record UIComponent =
  name :: string
  description :: string
  codesnippet :: string
  dependencies :: string

record UISelectionResult =
  selectedComponents :: "UIComponent list"
  formattedForPrompt :: string

record world =
  apiKeys :: "string list"
  llm :: "nat \<Rightarrow> llm_result"
  llm_calls :: nat
  currentKeyIndex :: nat
  blueprintKeyIndex :: nat
  uiKeyIndex :: nat
  selectionCache :: "(string \<times> UISelectionResult) list"
  globalFileCallback :: "nat option"
  globalPhaseCallback :: "nat option"
  file_events :: "(nat \<times> GeneratedFile) list"
  phase_events :: "(nat \<times> string) list"

type_synonym stage = "WebsiteState \<Rightarrow> world \<Rightarrow> (exn + update) \<times> world"

definition request :: "world \<Rightarrow> llm_result \<times> world" where
  "request w = (llm w (llm_calls w), w\<lparr>llm_calls := llm_calls w + 1\<rparr>)"

definition maxRetries :: nat where
  "maxRetries = 3"

section \<open>Intent router node\<close>

definition rotateApiKey :: "world \<Rightarrow> world" where
  "rotateApiKey w =
     (if length (apiKeys w) > 1
      then w\<lparr>currentKeyIndex := (currentKeyIndex w + 1) mod length (apiKeys w)\<rparr>
      else w)"

definition MODIFY_KEYWORDS :: "string list" where
  "MODIFY_KEYWORDS =
     [''add'', ''change'', ''update'', ''modify'', ''edit'', ''remove'', ''delete'',
      ''fix'', ''improve'', ''enhance'', ''create new'', ''add new'', ''include'',
      ''put'', ''place'', ''insert'', ''make'', ''build'']"

definition QUESTION_KEYWORDS :: "string list" where
  "QUESTION_KEYWORDS =
     [''where is'', ''where are'', ''where can i find'', ''how do i'',
      ''what is'', ''what are'', ''which'', ''explain'', ''show me'',
      ''tell me'', ''describe'', ''help me understand'', ''can you explain'']"

definition intent_update :: "string \<Rightarrow> update" where
  "intent_update intent =
     empty_update\<lparr>u_requestIntent := Some intent, u_isModification := Some (intent = ''modify'')\<rparr>"

text \<open>
  The intent read off a completion: the content in lower case and trimmed, \<open>modify\<close> when
  that is missing or empty; a word outside the four intents falls back to the keywords.
\<close>

definition detect_intent :: "string option \<Rightarrow> bool \<Rightarrow> string" where
  "detect_intent c hasQuestion =
     (let intentRaw = (case c of None \<Rightarrow> ''modify''
                       | Some t \<Rightarrow> (if trim (toLowerCase t) = [] then ''modify''
                                   else trim (toLowerCase t)))
      in if intentRaw \<in> set [''create'', ''modify'', ''question'', ''explain'']
         then intentRaw
         else if hasQuestion then ''question'' else ''modify'')"

definition fallbackIntent :: "bool \<Rightarrow> bool \<Rightarrow> bool \<Rightarrow> string" where
  "fallbackIntent hasExistingFiles hasModify hasQuestion =
     (if \<not> hasExistingFiles then ''create''
      else if hasQuestion then ''question''
      else if hasModify then ''modify''
      else ''modify'')"

text \<open>
  The retry loop \<open>for (attempt = 1; attempt <= maxRetries; attempt++)\<close>. Every caught
  error rotates the key; the last attempt's error ends in the keyword fallback.
\<close>

function intentRouter_loop :: "bool \<Rightarrow> bool \<Rightarrow> bool \<Rightarrow> nat \<Rightarrow> world \<Rightarrow> update \<times> world" where
  "intentRouter_loop hasExistingFiles hasModify hasQuestion attempt w =
     (if attempt \<le> maxRetries then
        (case request w of
           (Content c, w1) \<Rightarrow> (intent_update (detect_intent c hasQuestion), w1)
         | (Throws msg, w1) \<Rightarrow>
             (if attempt < maxRetries
              then intentRouter_loop hasExistingFiles hasModify hasQuestion
                     (attempt + 1) (rotateApiKey w1)
              else (intent_update (fallbackIntent hasExistingFiles hasModify hasQuestion),
                    rotateApiKey w1)))
      else (intent_update (if hasQuestion then ''question'' else ''modify''), w))"
  by pat_completeness auto
termination
  by (relation "measure (\<lambda>(f, m, q, attempt, w). maxRetries + 1 - attempt)") auto

declare intentRouter_loop.simps [simp del]

definition hasModifyKeywords :: "string \<Rightarrow> bool" where
  "hasModifyKeywords prompt_lower = list_ex (\<lambda>kw. includes_str prompt_lower kw) MODIFY_KEYWORDS"

definition hasQuestionKeywords :: "string \<Rightarrow> bool" where
  "hasQuestionKeywords prompt_lower = list_ex (\<lambda>kw. includes_str prompt_lower kw) QUESTION_KEYWORDS"

definition intentRouterNode :: stage where
  "intentRouterNode state w =
     (let prompt_lower = toLowerCase (userPrompt state);
          hasExistingFiles = length (files state) > 0;
          hasBlueprint = (blueprint state \<noteq> None)
      in if \<not> hasExistingFiles \<and> \<not> hasBlueprint
         then (Inr (empty_update\<lparr>u_requestIntent := Some ''create'',
                                  u_isModification := Some False\<rparr>), w)
         else (case intentRouter_loop hasExistingFiles (hasModifyKeywords prompt_lower)
                      (hasQuestionKeywords prompt_lower) 1 w
               of (u, w') \<Rightarrow> (Inr u, w')))"

section \<open>Chat response node\<close>

definition no_answer :: string where
  "no_answer = ''I couldn't find information about that in this project.''"

definition fallbackResponse :: "WebsiteState \<Rightarrow> string" where
  "fallbackResponse state =
     ''I encountered an error while processing your question. '' @
     (if length (files state) > 0 then
        ''However, I can tell you that this project has '' @ show_nat (length (files state))
          @ '' files. '' @
        (case blueprint state of
           None \<Rightarrow> []
         | Some b \<Rightarrow> ''The project is called '' @ [CHR 0x22] @ projectName b @ [CHR 0x22]
              @ '' and has ''
              @ show_nat (case pages b of None \<Rightarrow> 0 | Some ps \<Rightarrow> length ps) @ '' pages.'')
      else [])"

text \<open>
  The memory lookup before the request sits in its own \<open>try\<close>/\<open>catch\<close> and only feeds the
  prompt. Whatever the request throws is caught and answered with the fallback text.
\<close>

definition chatResponseNode :: stage where
  "chatResponseNode state w =
     (case request w of
        (Content c, w1) \<Rightarrow>
          (let answer = (case c of None \<Rightarrow> no_answer
                         | Some a \<Rightarrow> if a = [] then no_answer else a)
           in (Inr (empty_update\<lparr>u_chatResponse := Some answer,
                                 u_messages := [CHR '' '' # answer]\<rparr>), w1))
      | (Throws msg, w1) \<Rightarrow>
          (Inr (empty_update\<lparr>u_chatResponse := Some (fallbackResponse state),
                              u_messages := [CHR '' '' # fallbackResponse state]\<rparr>), w1))"

section \<open>Stages taken as parameters\<close>

text \<open>
  The stage functions for structure, core files, components and pages are not among the
  files of the repository at hand. Those for blueprint and modification analysis are,
  but they delegate to planning, image and memory services and return no field that an
  edge of the graph reads. All six are parameters here, each an arbitrary stage that may
  fail. The validation and repair stages wrap a parameter as the spec describes them.
\<close>

record stages =
  modificationAnalyzerNode :: stage
  blueprintNode :: stage
  structureNode :: stage
  coreNode :: stage
  componentNode :: stage
  pageNode :: stage
  validate :: "WebsiteState \<Rightarrow> world \<Rightarrow> (exn + ValidationError list \<times> string list) \<times> world"
  repair :: stage

text \<open>
  Modelled from the spec: the validation stage (module \<open>validation-node\<close>) is not part of
  the sources at hand. The spec: \<open>errors\<close> is populated by the validation stage, replaced
  (not appended) on each validation pass; the stage may fail and has no fallback. The
  findings and the log lines of a pass come from the parameter.
\<close>

definition validationNode :: "(WebsiteState \<Rightarrow> world \<Rightarrow> (exn + ValidationError list \<times> string list) \<times> world) \<Rightarrow> stage" where
  "validationNode check state w =
     (case check state w of
        (Inl e, w') \<Rightarrow> (Inl e, w')
      | (Inr (found, msgs), w') \<Rightarrow>
          (Inr (empty_update\<lparr>u_errors := Some found, u_currentPhase := Some ''validation'',
                              u_messages := msgs\<rparr>), w'))"

text \<open>
  Modelled from the spec: the repair stage (module \<open>repair-node\<close>) is not part of the
  sources at hand. The spec: the repair stage attempts to fix the reported errors in
  the affected files and increments \<open>iterationCount\<close>; it may fail and has no fallback.
  What it rewrites comes from the parameter; the increment is imposed on its result.
\<close>

definition repairNode :: "stage \<Rightarrow> stage" where
  "repairNode apply_fix state w =
     (case apply_fix state w of
        (Inl e, w') \<Rightarrow> (Inl e, w')
      | (Inr u, w') \<Rightarrow> (Inr (u\<lparr>u_iterationCount := Some (iterationCount state + 1)\<rparr>), w'))"

section \<open>Running the graph\<close>

fun node_fn :: "stages \<Rightarrow> node \<Rightarrow> stage" where
  "node_fn st START = (\<lambda>state w. (Inr empty_update, w))"
| "node_fn st Intent_router = intentRouterNode"
| "node_fn st Chat_response = chatResponseNode"
| "node_fn st Modification_analyzer = modificationAnalyzerNode st"
| "node_fn st Blueprint_step = blueprintNode st"
| "node_fn st Structure_step = structureNode st"
| "node_fn st Core_step = coreNode st"
| "node_fn st Components_step = componentNode st"
| "node_fn st Pages_step = pageNode st"
| "node_fn st Validation_step = validationNode (validate st)"
| "node_fn st Repair_step = repairNode (repair st)"
| "node_fn st END = (\<lambda>state w. (Inr empty_update, w))"

text \<open>
  One step runs the stage of the current node, merges its partial result and follows
  the edge chosen on the merged state. A failing stage aborts the run. The graph
  library bounds the number of steps of one run (its recursion limit) and fails with an
  error of its own beyond it; the bound is the first argument.
\<close>

datatype outcome = Finished WebsiteState | Failed exn | OutOfSteps

fun run_graph :: "nat \<Rightarrow> stages \<Rightarrow> node \<Rightarrow> WebsiteState \<Rightarrow> world \<Rightarrow> outcome \<times> world" where
  "run_graph 0 st v state w =
     (if v = END then (Finished state, w) else (OutOfSteps, w))"
| "run_graph (Suc n) st v state w =
     (if v = END then (Finished state, w)
      else (case node_fn st v state w of
              (Inl e, w') \<Rightarrow> (Failed e, w')
            | (Inr u, w') \<Rightarrow>
                (case next_node v (merge state u) of
                   None \<Rightarrow> (Failed (Error ''no target for the routing key''), w')
                 | Some v' \<Rightarrow> run_graph n st v' (merge state u) w')))"

definition invoke :: "nat \<Rightarrow> stages \<Rightarrow> WebsiteState \<Rightarrow> world \<Rightarrow> (exn + WebsiteState) \<times> world" where
  "invoke limit st input w =
     (case next_node START input of
        None \<Rightarrow> (Inl (Error ''no entry point''), w)
      | Some v \<Rightarrow>
          (case run_graph limit st v input w of
             (Finished result, w') \<Rightarrow> (Inr result, w')
           | (Failed e, w') \<Rightarrow> (Inl e, w')
           | (OutOfSteps, w') \<Rightarrow> (Inl GraphRecursionError, w')))"

section \<open>Notification channel and driver\<close>

definition setFileCallback :: "nat option \<Rightarrow> world \<Rightarrow> world" where
  "setFileCallback cb w = w\<lparr>globalFileCallback := cb\<rparr>"

definition setPhaseCallback :: "nat option \<Rightarrow> world \<Rightarrow> world" where
  "setPhaseCallback cb w = w\<lparr>globalPhaseCallback := cb\<rparr>"

definition notifyFileCreated :: "GeneratedFile \<Rightarrow> world \<Rightarrow> world" where
  "notifyFileCreated f w =
     (case globalFileCallback w of
        None \<Rightarrow> w
      | Some cb \<Rightarrow> w\<lparr>file_events := file_events w @ [(cb, f)]\<rparr>)"

definition notifyPhaseChange :: "string \<Rightarrow> world \<Rightarrow> world" where
  "notifyPhaseChange phase w =
     (case globalPhaseCallback w of
        None \<Rightarrow> w
      | Some cb \<Rightarrow> w\<lparr>phase_events := phase_events w @ [(cb, phase)]\<rparr>)"

definition initialState :: "string \<Rightarrow> projectType \<Rightarrow> WebsiteState" where
  "initialState prompt ptype =
     \<lparr> userPrompt = prompt, projectType = ptype, requestIntent = None,
       isModification = None, chatResponse = None, blueprint = None, files = [],
       errors = [], iterationCount = 0, currentPhase = ''init'', isComplete = False,
       messages = [] \<rparr>"

record generation_result =
  r_files :: "(string \<times> GeneratedFile) list"
  r_errors :: "ValidationError list"
  r_messages :: "string list"

text \<open>
  \<open>generateWebsite\<close>: register the listeners, run the graph inside \<open>try\<close>, rethrow what it
  throws, and clear the listeners in \<open>finally\<close>.
\<close>

definition generateWebsite :: "nat \<Rightarrow> stages \<Rightarrow> string \<Rightarrow> projectType \<Rightarrow> nat option \<Rightarrow> nat option \<Rightarrow> world \<Rightarrow> (exn + generation_result) \<times> world" where
  "generateWebsite limit st prompt ptype onFileGenerated onPhaseChange w =
     (let w1 = setPhaseCallback onPhaseChange (setFileCallback onFileGenerated w)
      in case invoke limit st (initialState prompt ptype) w1 of
           (Inr result, w2) \<Rightarrow>
             (Inr \<lparr> r_files = files result, r_errors = errors result,
                    r_messages = messages result \<rparr>,
              setPhaseCallback None (setFileCallback None w2))
         | (Inl error, w2) \<Rightarrow>
             (Inl error, setPhaseCallback None (setFileCallback None w2)))"

section \<open>Page extraction of the blueprint node\<close>

definition rotateBlueprintKey :: "world \<Rightarrow> world" where
  "rotateBlueprintKey w =
     (if length (apiKeys w) > 1
      then w\<lparr>blueprintKeyIndex := (blueprintKeyIndex w + 1) mod length (apiKeys w)\<rparr>
      else w)"

text \<open>
  \<open>content.match(/\[[\s\S]*\]/)\<close>: the text from the first opening bracket to the last
  closing bracket after it, if there is one.
\<close>

definition jsonMatch :: "string \<Rightarrow> string option" where
  "jsonMatch text =
     (case dropWhile (\<lambda>c. c \<noteq> CHR ''['') text of
        [] \<Rightarrow> None
      | b # rest \<Rightarrow>
          (case rev (dropWhile (\<lambda>c. c \<noteq> CHR '']'') (rev rest)) of
             [] \<Rightarrow> None
           | inner \<Rightarrow> Some (b # inner)))"

definition page :: "string \<Rightarrow> string \<Rightarrow> string \<Rightarrow> string list \<Rightarrow> string list \<Rightarrow> json" where
  "page n r d secs comps =
     JObj [(''name'', JStr n), (''route'', JStr r), (''description'', JStr d),
           (''sections'', JArr (map JStr secs)), (''components'', JArr (map JStr comps))]"

definition fallback_pages :: json where
  "fallback_pages =
     JArr [page ''HomePage'' ''/'' ''Main landing page''
             [''Hero'', ''Features'', ''CTA''] [''Hero'', ''FeatureGrid''],
           page ''NotFoundPage'' ''*'' ''404 error page''
             [''ErrorMessage''] [''ErrorDisplay'']]"

text \<open>
  The retry loop of \<open>extractPagesWithLLM\<close>, entered once the prompt is built. \<open>JSON.parse\<close>
  is a parameter (\<open>None\<close> when it throws). A completion without a bracketed part leaves
  the \<open>try\<close> block without a result and without an error, so the key is not rotated; a
  thrown error is caught, the key rotated, and the next attempt follows.
\<close>

function extractPages_loop :: "(string \<Rightarrow> json option) \<Rightarrow> nat \<Rightarrow> world \<Rightarrow> json \<times> world" where
  "extractPages_loop JSON_parse attempt w =
     (if attempt \<le> maxRetries then
        (case request w of
           (Content c, w1) \<Rightarrow>
             (case jsonMatch (case c of None \<Rightarrow> ''[]''
                              | Some t \<Rightarrow> if t = [] then ''[]'' else t) of
                None \<Rightarrow> extractPages_loop JSON_parse (attempt + 1) w1
              | Some m \<Rightarrow>
                  (case JSON_parse m of
                     Some parsed \<Rightarrow> (parsed, w1)
                   | None \<Rightarrow>
                       extractPages_loop JSON_parse (attempt + 1) (rotateBlueprintKey w1)))
         | (Throws msg, w1) \<Rightarrow>
             extractPages_loop JSON_parse (attempt + 1) (rotateBlueprintKey w1))
      else (fallback_pages, w))"
  by pat_completeness auto
termination
  by (relation "measure (\<lambda>(p, attempt, w). maxRetries + 1 - attempt)") auto

declare extractPages_loop.simps [simp del]

text \<open>An attempt fails when the request throws, nothing bracketed is found, or parsing throws.\<close>

definition attempt_fails :: "(string \<Rightarrow> json option) \<Rightarrow> llm_result \<Rightarrow> bool" where
  "attempt_fails JSON_parse r =
     (case r of
        Throws msg \<Rightarrow> True
      | Content c \<Rightarrow>
          (case jsonMatch (case c of None \<Rightarrow> ''[]''
                           | Some t \<Rightarrow> if t = [] then ''[]'' else t) of
             None \<Rightarrow> True
           | Some m \<Rightarrow> JSON_parse m = None))"

definition extractPagesWithLLM :: "(string \<Rightarrow> json option) \<Rightarrow> world \<Rightarrow> json \<times> world" where
  "extractPagesWithLLM JSON_parse w = extractPages_loop JSON_parse 1 w"

section \<open>Component selection of the UI service\<close>

definition rotateUiKey :: "world \<Rightarrow> world" where
  "rotateUiKey w =
     (if length (apiKeys w) > 1
      then w\<lparr>uiKeyIndex := (uiKeyIndex w + 1) mod length (apiKeys w)\<rparr>
      else w)"

definition is_rate_limit :: "string \<Rightarrow> bool" where
  "is_rate_limit msg =
     (includes_str msg ''429'' \<or> includes_str msg ''quota'' \<or>
      includes_str msg ''RESOURCE_EXHAUSTED'' \<or> includes_str msg ''overloaded'')"

definition empty_selection :: UISelectionResult where
  "empty_selection = \<lparr> selectedComponents = [], formattedForPrompt = [] \<rparr>"

definition default_selection_text :: string where
  "default_selection_text =
     ''{'' @ [CHR 0x22] @ ''selectedComponents'' @ [CHR 0x22] @ '': []}''"

text \<open>
  What happens to a thrown error in \<open>selectComponents\<close>: rate-limit and quota errors
  rotate the key and continue, every other error rotates the key as well.
\<close>

definition after_error :: "string \<Rightarrow> world \<Rightarrow> world" where
  "after_error msg w = (if is_rate_limit msg then rotateUiKey w else rotateUiKey w)"

text \<open>
  The retry loop of \<open>selectComponents\<close>. Turning the completion text into a selection
  (stripping code fences, \<open>JSON.parse\<close>, the lookup in the component catalogue and the
  formatting) is the parameter \<open>build\<close>, which gives the message of the error when one
  of these throws. A result is stored in the cache under the key before it is returned.
\<close>

function selectComponents_loop :: "(string \<Rightarrow> string + UISelectionResult) \<Rightarrow> string \<Rightarrow> nat \<Rightarrow> world \<Rightarrow> UISelectionResult \<times> world" where
  "selectComponents_loop build cacheKey attempt w =
     (if attempt \<le> maxRetries then
        (case request w of
           (Content c, w1) \<Rightarrow>
             (case build (case c of None \<Rightarrow> default_selection_text
                          | Some t \<Rightarrow> if t = [] then default_selection_text else t) of
                Inr result \<Rightarrow>
                  (result, w1\<lparr>selectionCache := upsert cacheKey result (selectionCache w1)\<rparr>)
              | Inl msg \<Rightarrow>
                  selectComponents_loop build cacheKey (attempt + 1) (after_error msg w1))
         | (Throws msg, w1) \<Rightarrow>
             selectComponents_loop build cacheKey (attempt + 1) (after_error msg w1))
      else (empty_selection, w))"
  by pat_completeness auto
termination
  by (relation "measure (\<lambda>(b, k, attempt, w). maxRetries + 1 - attempt)") auto

declare selectComponents_loop.simps [simp del]

text \<open>An attempt succeeds when the request returns and the selection can be built from it.\<close>

definition attempt_succeeds :: "(string \<Rightarrow> string + UISelectionResult) \<Rightarrow> llm_result \<Rightarrow> bool" where
  "attempt_succeeds build r =
     (case r of
        Throws msg \<Rightarrow> False
      | Content c \<Rightarrow>
          (case build (case c of None \<Rightarrow> default_selection_text
                       | Some t \<Rightarrow> if t = [] then default_selection_text else t) of
             Inr result \<Rightarrow> True
           | Inl msg \<Rightarrow> False))"

definition selectComponents :: "(string \<Rightarrow> string + UISelectionResult) \<Rightarrow> string \<Rightarrow> world \<Rightarrow> UISelectionResult \<times> world" where
  "selectComponents build requirements w =
     (let cacheKey = trim requirements
      in case map_of (selectionCache w) cacheKey of
           Some cached \<Rightarrow> (cached, w)
         | None \<Rightarrow> selectComponents_loop build cacheKey 1 w)"

section \<open>Bookkeeping of requests and rotations\<close>

text \<open>
  \<open>count_request\<close> is the effect of issuing one request on the world, \<open>retry_step\<close> the
  effect of one failed attempt of the intent router: the request is counted and the key
  rotated.
\<close>

definition count_request :: "world \<Rightarrow> world" where
  "count_request w = w\<lparr>llm_calls := llm_calls w + 1\<rparr>"

definition retry_step :: "world \<Rightarrow> world" where
  "retry_step w = rotateApiKey (count_request w)"

section \<open>Sample inputs\<close>

definition sample_error :: ValidationError where
  "sample_error = \<lparr> err_file = ''src/App.tsx'', err_message = ''missing import'' \<rparr>"

definition sample_file :: GeneratedFile where
  "sample_file = \<lparr> path = ''src/App.tsx'', content = ''export default App'', exports = None \<rparr>"

definition idle_stage :: stage where
  "idle_stage state w = (Inr empty_update, w)"

text \<open>Stages whose validation reports the same error on every pass.\<close>

definition failing_checks :: stages where
  "failing_checks =
     \<lparr> modificationAnalyzerNode = idle_stage, blueprintNode = idle_stage,
       structureNode = idle_stage, coreNode = idle_stage, componentNode = idle_stage,
       pageNode = (\<lambda>state w. (Inr (empty_update\<lparr>u_files := [(''src/App.tsx'', sample_file)]\<rparr>),
                               notifyFileCreated sample_file w)),
       validate = (\<lambda>state w. (Inr ([sample_error], []), w)),
       repair = idle_stage \<rparr>"

text \<open>Stages whose core-file generation fails.\<close>

definition broken_core :: stages where
  "broken_core = failing_checks\<lparr>coreNode := (\<lambda>state w. (Inl (Error ''generation exhausted''), w))\<rparr>"

definition sample_world :: world where
  "sample_world =
     \<lparr> apiKeys = [''key-a'', ''key-b'', ''key-c''],
       llm = (\<lambda>k. Throws ''429 Too Many Requests''),
       llm_calls = 0, currentKeyIndex = 2, blueprintKeyIndex = 0, uiKeyIndex = 0,
       selectionCache = [], globalFileCallback = None, globalPhaseCallback = None,
       file_events = [], phase_events = [] \<rparr>"

definition existing_project :: WebsiteState where
  "existing_project =
     (initialState ''Where is the navbar? Please add a footer'' Frontend)
       \<lparr>files := [(''src/App.tsx'', sample_file)]\<rparr>"

text \<open>A completion padded with a no-break space, a space and a line feed.\<close>

definition padded_answer :: string where
  "padded_answer = CHR 0xA0 # '' Question'' @ [CHR 0x0A]"



definition sample_selection :: UISelectionResult where
  "sample_selection =
     \<lparr> selectedComponents =
         [\<lparr> name = ''Aurora'', description = ''background'', codesnippet = ''<Aurora/>'',
            dependencies = ''ogl'' \<rparr>],
       formattedForPrompt = ''Aurora'' \<rparr>"

definition sample_build :: "string \<Rightarrow> string + UISelectionResult" where
  "sample_build text = (if text = ''ok'' then Inr sample_selection else Inl ''Unexpected token'')"

definition sample_parse :: "string \<Rightarrow> json option" where
  "sample_parse text = (if text = ''[]'' then Some (JArr []) else None)"

section \<open>Outcome of the repair loop\<close>



section \<open>Facts about merging and single steps\<close>

lemma run_graph_END: "run_graph n st END state w = (Finished state, w)"
  by (cases n) simp_all

lemma files_merge: "files (merge s u) = fold (\<lambda>(k, v). upsert k v) (u_files u) (files s)"
  by (simp add: merge_def)

lemma requestIntent_merge:
  "requestIntent (merge s u) = replace_opt (u_requestIntent u) (requestIntent s)"
  by (simp add: merge_def)

lemma errors_merge: "errors (merge s u) = replace_with (u_errors u) (errors s)"
  by (simp add: merge_def)

lemma iterationCount_merge:
  "iterationCount (merge s u) = replace_with (u_iterationCount u) (iterationCount s)"
  by (simp add: merge_def)

lemma intent_update_files: "u_files (intent_update i) = []"
  by (simp add: intent_update_def empty_update_def)

lemma intentRouter_loop_update:
  "\<exists>i. fst (intentRouter_loop f m q attempt w) = intent_update i"
proof (induction f m q attempt w rule: intentRouter_loop.induct)
  case (1 f m q attempt w)
  show ?case
    apply (subst intentRouter_loop.simps)
    using 1
    apply (auto split: prod.splits llm_result.splits)
    done
qed

lemma intentRouterNode_files:
  assumes "intentRouterNode state w = (Inr u, w1)"
  shows "u_files u = []"
proof (cases "files state = [] \<and> blueprint state = None")
  case True
  with assms show ?thesis
    by (auto simp: intentRouterNode_def Let_def empty_update_def)
next
  case False
  obtain i where "fst (intentRouter_loop (length (files state) > 0)
      (hasModifyKeywords (toLowerCase (userPrompt state)))
      (hasQuestionKeywords (toLowerCase (userPrompt state))) 1 w) = intent_update i"
    using intentRouter_loop_update by blast
  with False assms show ?thesis
    by (auto simp: intentRouterNode_def Let_def intent_update_files split: prod.splits)
qed

lemma chatResponseNode_files:
  "\<exists>u w'. chatResponseNode state w = (Inr u, w') \<and> u_files u = []"
  by (auto simp: chatResponseNode_def Let_def empty_update_def split: prod.splits llm_result.splits)

section \<open>The edges of the graph\<close>

text \<open>
  Claim C1. The conditional edge leaving the validation stage reads only the state: no
  errors lead to the end node, errors with \<open>iterationCount >= 3\<close> lead to the end node as
  well, and errors below the bound lead to the repair stage. A run that takes the edge to
  the end node finishes with the merged state as it is, remaining errors included, and
  not with a failure.
\<close>

theorem validation_edge:
  "next_node Validation_step state =
     Some (if errors state = [] then END
           else if iterationCount state \<ge> 3 then END
           else Repair_step)
   \<and> (node_fn st Validation_step state0 w = (Inr u, w') \<and> merge state0 u = state \<longrightarrow>
        run_graph (Suc n) st Validation_step state0 w =
          (if errors state = [] then (Finished state, w')
           else if iterationCount state \<ge> 3 then (Finished state, w')
           else run_graph n st Repair_step state w'))"
  by (simp add: route_validation_def validation_path_map_def run_graph_END del: node_fn.simps)

theorem validation_edge_witness:
  "\<exists>final. run_graph 1 failing_checks Validation_step (existing_project\<lparr>iterationCount := 3\<rparr>)
       sample_world = (Finished final, sample_world)
     \<and> errors final = [sample_error] \<and> iterationCount final = 3
     \<and> next_node Validation_step final = Some END"
proof -
  let ?s0 = "existing_project\<lparr>iterationCount := 3\<rparr>"
  let ?u = "empty_update\<lparr>u_errors := Some [sample_error],
              u_currentPhase := Some ''validation'', u_messages := []\<rparr>"
  have h: "node_fn failing_checks Validation_step ?s0 sample_world = (Inr ?u, sample_world)
           \<and> merge ?s0 ?u = merge ?s0 ?u"
    by (simp add: validationNode_def failing_checks_def)
  have e: "errors (merge ?s0 ?u) = [sample_error]" "iterationCount (merge ?s0 ?u) = 3"
    by (simp_all add: errors_merge iterationCount_merge replace_with_def empty_update_def)
  from validation_edge[of "merge ?s0 ?u" failing_checks ?s0 sample_world ?u sample_world 0] h e
  show ?thesis by (simp del: run_graph.simps node_fn.simps next_node.simps)
qed

text \<open>
  Claim C3. After the routing stage, \<open>question\<close> and \<open>explain\<close> lead to the chat-answer
  stage and from there to the end; \<open>modify\<close> leads to modification analysis, then to the
  repair stage, then to validation; \<open>create\<close> and every other value, the unset one
  included, lead into blueprint, structure, core files, components, pages, validation.
\<close>

theorem intent_branch_table:
  "next_node Intent_router state =
     Some (if requestIntent state = Some ''question'' \<or> requestIntent state = Some ''explain''
           then Chat_response
           else if requestIntent state = Some ''modify'' then Modification_analyzer
           else Blueprint_step)
   \<and> next_node Chat_response s1 = Some END
   \<and> next_node Modification_analyzer s2 = Some Repair_step
   \<and> next_node Repair_step s3 = Some Validation_step
   \<and> next_node Blueprint_step s4 = Some Structure_step
   \<and> next_node Structure_step s5 = Some Core_step
   \<and> next_node Core_step s6 = Some Components_step
   \<and> next_node Components_step s7 = Some Pages_step
   \<and> next_node Pages_step s8 = Some Validation_step"
  by (simp add: route_intent_def intent_path_map_def)

theorem intent_branch_table_witness:
  "next_node Intent_router (existing_project\<lparr>requestIntent := Some ''explain''\<rparr>) = Some Chat_response
   \<and> next_node Intent_router (existing_project\<lparr>requestIntent := Some ''modify''\<rparr>) = Some Modification_analyzer
   \<and> next_node Intent_router (existing_project\<lparr>requestIntent := Some ''create''\<rparr>) = Some Blueprint_step
   \<and> next_node Intent_router (existing_project\<lparr>requestIntent := Some ''delete''\<rparr>) = Some Blueprint_step
   \<and> next_node Intent_router (existing_project\<lparr>requestIntent := None\<rparr>) = Some Blueprint_step"
  using intent_branch_table[of "existing_project\<lparr>requestIntent := Some ''explain''\<rparr>"]
    intent_branch_table[of "existing_project\<lparr>requestIntent := Some ''modify''\<rparr>"]
    intent_branch_table[of "existing_project\<lparr>requestIntent := Some ''create''\<rparr>"]
    intent_branch_table[of "existing_project\<lparr>requestIntent := Some ''delete''\<rparr>"]
    intent_branch_table[of "existing_project\<lparr>requestIntent := None\<rparr>"]
  by (simp del: next_node.simps)

section \<open>Intent routing\<close>

text \<open>
  Claim C4. A state without files and without a blueprint is routed to \<open>create\<close>, whatever
  keywords the prompt contains, and the world is left as it was: no request is issued.
\<close>

theorem no_project_routes_to_create:
  assumes "files state = []" and "blueprint state = None"
  shows "intentRouterNode state w =
           (Inr (empty_update\<lparr>u_requestIntent := Some ''create'',
                               u_isModification := Some False\<rparr>), w)
         \<and> requestIntent (merge state (empty_update\<lparr>u_requestIntent := Some ''create'',
                               u_isModification := Some False\<rparr>)) = Some ''create''"
  using assms by (simp add: intentRouterNode_def Let_def requestIntent_merge replace_opt_def)

theorem no_project_routes_to_create_witness:
  "hasModifyKeywords (toLowerCase ''Explain where is the header and add a page'')
   \<and> hasQuestionKeywords (toLowerCase ''Explain where is the header and add a page'')
   \<and> intentRouterNode (initialState ''Explain where is the header and add a page'' Frontend)
        sample_world =
      (Inr (empty_update\<lparr>u_requestIntent := Some ''create'', u_isModification := Some False\<rparr>),
       sample_world)"
proof -
  have f: "files (initialState ''Explain where is the header and add a page'' Frontend) = []"
    and b: "blueprint (initialState ''Explain where is the header and add a page'' Frontend) = None"
    by (simp_all add: initialState_def)
  have k: "hasModifyKeywords (toLowerCase ''Explain where is the header and add a page'')"
    "hasQuestionKeywords (toLowerCase ''Explain where is the header and add a page'')"
    by (simp_all add: hasModifyKeywords_def hasQuestionKeywords_def MODIFY_KEYWORDS_def
        QUESTION_KEYWORDS_def toLowerCase_def lower_char_def upper_letters_def lower_letters_def)
  from no_project_routes_to_create[OF f b, of sample_world] k show ?thesis by simp
qed

section \<open>The chat-answer branch\<close>

text \<open>
  Claim C5. When routing yields \<open>question\<close> or \<open>explain\<close>, the run ends after the
  chat-answer stage with a final state whose \<open>files\<close> are those that entered the routing
  stage: same keys, same contents, same order.
\<close>

theorem chat_branch_keeps_files:
  assumes router: "intentRouterNode state w = (Inr u, w1)"
    and intent: "requestIntent (merge state u) = Some ''question''
                 \<or> requestIntent (merge state u) = Some ''explain''"
    and limit: "2 \<le> limit"
  shows "\<exists>final w'. invoke limit st state w = (Inr final, w') \<and> files final = files state"
proof -
  obtain n where n: "limit = Suc (Suc n)"
    using limit by (cases limit; cases "limit - 1") auto
  obtain u2 w2 where chat: "chatResponseNode (merge state u) w1 = (Inr u2, w2)"
    and u2: "u_files u2 = []"
    using chatResponseNode_files by blast
  have next1: "next_node Intent_router (merge state u) = Some Chat_response"
    using intent by (auto simp: route_intent_def intent_path_map_def)
  have "run_graph limit st Intent_router state w =
          (Finished (merge (merge state u) u2), w2)"
    unfolding n using router chat next1 by (simp add: run_graph_END)
  moreover have "files (merge (merge state u) u2) = files state"
    using u2 intentRouterNode_files[OF router] by (simp add: files_merge)
  ultimately show ?thesis
    by (simp add: invoke_def)
qed

theorem chat_branch_keeps_files_witness:
  "\<exists>final w'. invoke 25 failing_checks existing_project
       (sample_world\<lparr>llm := (\<lambda>k. Content (Some (if k = 0 then '' Question '' else ''In src/App.tsx'')))\<rparr>)
       = (Inr final, w')
     \<and> files final = [(''src/App.tsx'', sample_file)]"
proof -
  let ?w = "sample_world\<lparr>llm := (\<lambda>k. Content (Some (if k = 0 then '' Question '' else ''In src/App.tsx'')))\<rparr>"
  let ?u = "intent_update ''question''"
  let ?w1 = "?w\<lparr>llm_calls := 1\<rparr>"
  have d: "detect_intent (Some '' Question '') True = ''question''"
    by (simp add: detect_intent_def toLowerCase_def lower_char_def upper_letters_def lower_letters_def trim_def is_space_def)
  have q: "hasQuestionKeywords (toLowerCase (userPrompt existing_project))"
    by (simp add: existing_project_def initialState_def hasQuestionKeywords_def
        QUESTION_KEYWORDS_def toLowerCase_def lower_char_def upper_letters_def lower_letters_def)
  have r: "intentRouterNode existing_project ?w = (Inr ?u, ?w1)"
    apply (simp add: intentRouterNode_def Let_def q)
    apply (simp add: existing_project_def initialState_def)
    apply (subst intentRouter_loop.simps)
    apply (simp add: maxRetries_def request_def sample_world_def d)
    done
  have i: "requestIntent (merge existing_project ?u) = Some ''question''
           \<or> requestIntent (merge existing_project ?u) = Some ''explain''"
    by (simp add: requestIntent_merge intent_update_def empty_update_def replace_opt_def)
  have l: "(2::nat) \<le> 25" by simp
  from chat_branch_keeps_files[OF r i l, of failing_checks]
  show ?thesis
    by (simp add: existing_project_def)
qed

section \<open>The repair loop\<close>
















section \<open>Retry with key rotation in the intent router\<close>

lemma request_eq: "request w = (llm w (llm_calls w), count_request w)"
  by (simp add: request_def count_request_def)

lemma rotateApiKey_fields [simp]:
  "llm (rotateApiKey w) = llm w" "llm_calls (rotateApiKey w) = llm_calls w"
  "apiKeys (rotateApiKey w) = apiKeys w"
  by (simp_all add: rotateApiKey_def)

lemma count_request_fields [simp]:
  "llm (count_request w) = llm w" "llm_calls (count_request w) = llm_calls w + 1"
  "apiKeys (count_request w) = apiKeys w" "currentKeyIndex (count_request w) = currentKeyIndex w"
  by (simp_all add: count_request_def)

lemma router_loop_success:
  assumes "attempt + j \<le> maxRetries"
    and "\<forall>k<j. \<exists>msg. llm w (llm_calls w + k) = Throws msg"
    and "llm w (llm_calls w + j) = Content c"
  shows "intentRouter_loop f m q attempt w =
           (intent_update (detect_intent c q),
            count_request ((retry_step ^^ j) w))"
  using assms
proof (induction j arbitrary: attempt w)
  case 0
  then show ?case
    by (subst intentRouter_loop.simps) (simp add: request_eq)
next
  case (Suc j)
  from Suc.prems(2) obtain msg where first: "llm w (llm_calls w) = Throws msg"
    by (metis add.right_neutral zero_less_Suc)
  let ?w' = "retry_step w"
  have rest: "\<forall>k<j. \<exists>msg. llm ?w' (llm_calls ?w' + k) = Throws msg"
  proof (intro allI impI)
    fix k assume "k < j"
    then have "Suc k < Suc j" by simp
    with Suc.prems(2) obtain msg where "llm w (llm_calls w + Suc k) = Throws msg" by blast
    then show "\<exists>msg. llm ?w' (llm_calls ?w' + k) = Throws msg"
      by (simp add: retry_step_def)
  qed
  have last: "llm ?w' (llm_calls ?w' + j) = Content c"
    using Suc.prems(3) by (simp add: retry_step_def)
  have bound: "attempt + 1 + j \<le> maxRetries" using Suc.prems(1) by simp
  have lt: "attempt < maxRetries" "attempt \<le> maxRetries" using Suc.prems(1) by simp_all
  have "intentRouter_loop f m q attempt w = intentRouter_loop f m q (attempt + 1) ?w'"
    by (subst intentRouter_loop.simps) (simp add: request_eq first lt retry_step_def)
  also have "\<dots> = (intent_update (detect_intent c q),
            count_request ((retry_step ^^ j) ?w'))"
    by (rule Suc.IH[OF bound rest last])
  finally show ?case by (simp add: funpow_swap1)
qed

lemma rotateApiKey_index:
  "currentKeyIndex (rotateApiKey w) =
     (if length (apiKeys w) > 1 then (currentKeyIndex w + 1) mod length (apiKeys w)
      else currentKeyIndex w)"
  by (simp add: rotateApiKey_def)

lemma rotations_index:
  "currentKeyIndex ((retry_step ^^ j) w)
     = currentKeyIndex ((rotateApiKey ^^ j) w)
   \<and> apiKeys ((retry_step ^^ j) w) = apiKeys w
   \<and> apiKeys ((rotateApiKey ^^ j) w) = apiKeys w
   \<and> llm_calls ((retry_step ^^ j) w) = llm_calls w + j"
  by (induction j) (simp_all add: retry_step_def rotateApiKey_index)

lemma rotations_closed_form:
  assumes "currentKeyIndex w < length (apiKeys w)"
  shows "currentKeyIndex ((rotateApiKey ^^ j) w) = (currentKeyIndex w + j) mod length (apiKeys w)"
proof (induction j)
  case 0
  with assms show ?case by simp
next
  case (Suc j)
  have keys: "apiKeys ((rotateApiKey ^^ j) w) = apiKeys w"
    using rotations_index by blast
  show ?case
  proof (cases "length (apiKeys w) > 1")
    case True
    then show ?thesis
      using Suc keys by (simp add: rotateApiKey_index mod_Suc_eq)
  next
    case False
    with assms have "length (apiKeys w) = 1" by simp
    then show ?thesis using Suc keys by (simp add: rotateApiKey_index)
  qed
qed

lemma intent_words_fixed:
  "intent \<in> set [''create'', ''modify'', ''question'', ''explain''] \<Longrightarrow>
     trim (toLowerCase intent) = intent"
  by (auto simp: trim_def is_space_def toLowerCase_def lower_char_def upper_letters_def
      lower_letters_def)

text \<open>
  Claim C6. For a state with an existing project, if the first \<open>N - 1\<close> requests of the
  intent router throw and the \<open>N\<close>-th returns, \<open>N\<close> at most 3, the router returns the intent
  of that completion: its content in lower case and trimmed when that is one of the four
  intent words (so an answer that is exactly such a word is returned as it is),
  \<open>modify\<close> when the content is missing or blank, and otherwise \<open>question\<close> or \<open>modify\<close>
  as the prompt has question keywords or not. Exactly \<open>N\<close> requests have been issued, and
  the key index is the one reached by \<open>N - 1\<close> rotations: \<open>N - 1\<close> places further modulo
  the size of the pool.
\<close>

theorem retry_with_key_rotation:
  assumes existing: "files state \<noteq> [] \<or> blueprint state \<noteq> None"
    and cap: "1 \<le> N" "N \<le> maxRetries"
    and failures: "\<forall>k<N - 1. \<exists>msg. llm w (llm_calls w + k) = Throws msg"
    and success: "llm w (llm_calls w + (N - 1)) = Content c"
  shows "\<exists>u w'. intentRouterNode state w = (Inr u, w')
           \<and> u_requestIntent u
               = Some (case c of
                         None \<Rightarrow> ''modify''
                       | Some t \<Rightarrow>
                           if trim (toLowerCase t)
                                \<in> set [''create'', ''modify'', ''question'', ''explain'']
                           then trim (toLowerCase t)
                           else if trim (toLowerCase t) \<noteq> []
                                   \<and> hasQuestionKeywords (toLowerCase (userPrompt state))
                           then ''question'' else ''modify'')
           \<and> (\<forall>intent \<in> set [''create'', ''modify'', ''question'', ''explain''].
                 c = Some intent \<longrightarrow>
                   u_requestIntent u = Some intent
                   \<and> u_isModification u = Some (intent = ''modify''))
           \<and> llm_calls w' = llm_calls w + N
           \<and> currentKeyIndex w' = currentKeyIndex ((rotateApiKey ^^ (N - 1)) w)
           \<and> (currentKeyIndex w < length (apiKeys w) \<longrightarrow>
                currentKeyIndex w' = (currentKeyIndex w + (N - 1)) mod length (apiKeys w))"
proof -
  have b: "Suc 0 + (N - 1) \<le> maxRetries" using cap by simp
  note loop = router_loop_success[OF b failures success]
  let ?q = "hasQuestionKeywords (toLowerCase (userPrompt state))"
  let ?w' = "count_request ((retry_step ^^ (N - 1)) w)"
  have node: "intentRouterNode state w = (Inr (intent_update (detect_intent c ?q)), ?w')"
    using existing by (auto simp: intentRouterNode_def Let_def loop)
  have result: "detect_intent c ?q =
      (case c of
         None \<Rightarrow> ''modify''
       | Some t \<Rightarrow>
           if trim (toLowerCase t) \<in> set [''create'', ''modify'', ''question'', ''explain'']
           then trim (toLowerCase t)
           else if trim (toLowerCase t) \<noteq> [] \<and> ?q then ''question'' else ''modify'')"
    by (cases c) (simp_all add: detect_intent_def Let_def)
  have exact: "detect_intent (Some intent) ?q = intent"
    if "intent \<in> set [''create'', ''modify'', ''question'', ''explain'']" for intent
    using that intent_words_fixed[OF that] by (auto simp: detect_intent_def Let_def)
  have calls: "llm_calls ?w' = llm_calls w + N"
    using rotations_index[of "N - 1" w] cap by simp
  have idx: "currentKeyIndex ?w' = currentKeyIndex ((rotateApiKey ^^ (N - 1)) w)"
    using rotations_index[of "N - 1" w] by simp
  have fields: "u_requestIntent (intent_update i) = Some i"
    "u_isModification (intent_update i) = Some (i = ''modify'')" for i
    by (simp_all add: intent_update_def)
  show ?thesis
  proof (intro exI conjI)
    show "intentRouterNode state w = (Inr (intent_update (detect_intent c ?q)), ?w')"
      by (rule node)
    show "u_requestIntent (intent_update (detect_intent c ?q)) =
      Some (case c of
         None \<Rightarrow> ''modify''
       | Some t \<Rightarrow>
           if trim (toLowerCase t) \<in> set [''create'', ''modify'', ''question'', ''explain'']
           then trim (toLowerCase t)
           else if trim (toLowerCase t) \<noteq> [] \<and> ?q then ''question'' else ''modify'')"
      using result by (simp only: fields)
    show "\<forall>intent \<in> set [''create'', ''modify'', ''question'', ''explain''].
        c = Some intent \<longrightarrow>
          u_requestIntent (intent_update (detect_intent c ?q)) = Some intent
          \<and> u_isModification (intent_update (detect_intent c ?q)) = Some (intent = ''modify'')"
      using exact by (auto simp only: fields)
    show "llm_calls ?w' = llm_calls w + N" by (rule calls)
    show "currentKeyIndex ?w' = currentKeyIndex ((rotateApiKey ^^ (N - 1)) w)" by (rule idx)
    show "currentKeyIndex w < length (apiKeys w) \<longrightarrow>
        currentKeyIndex ?w' = (currentKeyIndex w + (N - 1)) mod length (apiKeys w)"
      using idx rotations_closed_form[of w "N - 1"] by simp
  qed
qed

lemmas string_defs = trim_def is_space_def toLowerCase_def lower_char_def upper_letters_def
  lower_letters_def

theorem retry_with_key_rotation_witness:
  "(\<exists>u w'. intentRouterNode existing_project
        (sample_world\<lparr>llm := (\<lambda>k. if k < 2 then Throws ''429 Too Many Requests''
                                  else Content (Some padded_answer))\<rparr>)
        = (Inr u, w')
      \<and> u_requestIntent u = Some ''question'' \<and> llm_calls w' = 3 \<and> currentKeyIndex w' = 1)
   \<and> (\<exists>u w'. intentRouterNode existing_project
        (sample_world\<lparr>llm := (\<lambda>k. Content (Some ''create''))\<rparr>) = (Inr u, w')
      \<and> u_requestIntent u = Some ''create'' \<and> u_isModification u = Some False
      \<and> llm_calls w' = 1 \<and> currentKeyIndex w' = 2)
   \<and> (\<exists>u w'. intentRouterNode (existing_project\<lparr>userPrompt := ''make it blue''\<rparr>)
        (sample_world\<lparr>llm := (\<lambda>k. if k < 1 then Throws ''quota''
                                  else Content (Some ''no idea''))\<rparr>) = (Inr u, w')
      \<and> u_requestIntent u = Some ''modify'' \<and> llm_calls w' = 2 \<and> currentKeyIndex w' = 0)"
proof -
  let ?w1 = "sample_world\<lparr>llm := (\<lambda>k. if k < 2 then Throws ''429 Too Many Requests''
                                  else Content (Some padded_answer))\<rparr>"
  let ?w2 = "sample_world\<lparr>llm := (\<lambda>k. Content (Some ''create''))\<rparr>"
  let ?w3 = "sample_world\<lparr>llm := (\<lambda>k. if k < 1 then Throws ''quota''
                                  else Content (Some ''no idea''))\<rparr>"
  let ?s3 = "existing_project\<lparr>userPrompt := ''make it blue''\<rparr>"
  have e: "files existing_project \<noteq> [] \<or> blueprint existing_project \<noteq> None"
    "files ?s3 \<noteq> [] \<or> blueprint ?s3 \<noteq> None"
    by (simp_all add: existing_project_def)
  have caps: "(1::nat) \<le> 3" "(3::nat) \<le> maxRetries" "(1::nat) \<le> 1" "(1::nat) \<le> maxRetries"
    "(1::nat) \<le> 2" "(2::nat) \<le> maxRetries"
    by (simp_all add: maxRetries_def)
  have f1: "\<forall>k<3 - 1. \<exists>msg. llm ?w1 (llm_calls ?w1 + k) = Throws msg"
    and s1: "llm ?w1 (llm_calls ?w1 + (3 - 1)) = Content (Some padded_answer)"
    and f2: "\<forall>k<1 - 1. \<exists>msg. llm ?w2 (llm_calls ?w2 + k) = Throws msg"
    and s2: "llm ?w2 (llm_calls ?w2 + (1 - 1)) = Content (Some ''create'')"
    and f3: "\<forall>k<2 - 1. \<exists>msg. llm ?w3 (llm_calls ?w3 + k) = Throws msg"
    and s3: "llm ?w3 (llm_calls ?w3 + (2 - 1)) = Content (Some ''no idea'')"
    by (simp_all add: sample_world_def)
  have k1: "currentKeyIndex ?w1 < length (apiKeys ?w1)"
    "(currentKeyIndex ?w1 + (3 - 1)) mod length (apiKeys ?w1) = 1" "llm_calls ?w1 + 3 = 3"
    and k2: "currentKeyIndex ?w2 < length (apiKeys ?w2)"
    "(currentKeyIndex ?w2 + (1 - 1)) mod length (apiKeys ?w2) = 2" "llm_calls ?w2 + 1 = 1"
    and k3: "currentKeyIndex ?w3 < length (apiKeys ?w3)"
    "(currentKeyIndex ?w3 + (2 - 1)) mod length (apiKeys ?w3) = 0" "llm_calls ?w3 + 2 = 2"
    by (simp_all add: sample_world_def)
  have t1: "trim (toLowerCase padded_answer) = ''question''"
    by (simp add: padded_answer_def string_defs)
  have t3: "trim (toLowerCase ''no idea'') = ''no idea''"
    "\<not> hasQuestionKeywords (toLowerCase (userPrompt ?s3))"
    by (simp_all add: string_defs hasQuestionKeywords_def QUESTION_KEYWORDS_def)
  from retry_with_key_rotation[OF e(1) caps(1,2) f1 s1]
  obtain u1 v1 where r1: "intentRouterNode existing_project ?w1 = (Inr u1, v1)"
    and i1: "u_requestIntent u1 = Some (case Some padded_answer of
                         None \<Rightarrow> ''modify''
                       | Some t \<Rightarrow>
                           if trim (toLowerCase t)
                                \<in> set [''create'', ''modify'', ''question'', ''explain'']
                           then trim (toLowerCase t)
                           else if trim (toLowerCase t) \<noteq> []
                                   \<and> hasQuestionKeywords (toLowerCase (userPrompt existing_project))
                           then ''question'' else ''modify'')"
    and n1: "llm_calls v1 = llm_calls ?w1 + 3"
    and x1: "currentKeyIndex ?w1 < length (apiKeys ?w1) \<longrightarrow>
                currentKeyIndex v1 = (currentKeyIndex ?w1 + (3 - 1)) mod length (apiKeys ?w1)"
    by blast
  have part1: "u_requestIntent u1 = Some ''question''" "llm_calls v1 = 3" "currentKeyIndex v1 = 1"
    using i1 n1 x1 k1 by (simp_all add: t1)
  from retry_with_key_rotation[OF e(1) caps(3,4) f2 s2]
  obtain u2 v2 where r2: "intentRouterNode existing_project ?w2 = (Inr u2, v2)"
    and i2: "\<forall>intent \<in> set [''create'', ''modify'', ''question'', ''explain''].
                 Some ''create'' = Some intent \<longrightarrow>
                   u_requestIntent u2 = Some intent
                   \<and> u_isModification u2 = Some (intent = ''modify'')"
    and n2: "llm_calls v2 = llm_calls ?w2 + 1"
    and x2: "currentKeyIndex ?w2 < length (apiKeys ?w2) \<longrightarrow>
                currentKeyIndex v2 = (currentKeyIndex ?w2 + (1 - 1)) mod length (apiKeys ?w2)"
    by blast
  have part2: "u_requestIntent u2 = Some ''create''" "u_isModification u2 = Some False"
    "llm_calls v2 = 1" "currentKeyIndex v2 = 2"
    using i2 n2 x2 k2 by simp_all
  from retry_with_key_rotation[OF e(2) caps(5,6) f3 s3]
  obtain u3 v3 where r3: "intentRouterNode ?s3 ?w3 = (Inr u3, v3)"
    and i3: "u_requestIntent u3 = Some (case Some ''no idea'' of
                         None \<Rightarrow> ''modify''
                       | Some t \<Rightarrow>
                           if trim (toLowerCase t)
                                \<in> set [''create'', ''modify'', ''question'', ''explain'']
                           then trim (toLowerCase t)
                           else if trim (toLowerCase t) \<noteq> []
                                   \<and> hasQuestionKeywords (toLowerCase (userPrompt ?s3))
                           then ''question'' else ''modify'')"
    and n3: "llm_calls v3 = llm_calls ?w3 + 2"
    and x3: "currentKeyIndex ?w3 < length (apiKeys ?w3) \<longrightarrow>
                currentKeyIndex v3 = (currentKeyIndex ?w3 + (2 - 1)) mod length (apiKeys ?w3)"
    by blast
  have part3: "u_requestIntent u3 = Some ''modify''" "llm_calls v3 = 2" "currentKeyIndex v3 = 0"
    using i3 n3 x3 k3 t3 by simp_all
  show ?thesis
    using r1 part1 r2 part2 r3 part3 by simp
qed

section \<open>Fallback of the page extraction\<close>

lemma rotateBlueprintKey_fields [simp]:
  "llm (rotateBlueprintKey w) = llm w" "llm_calls (rotateBlueprintKey w) = llm_calls w"
  by (simp_all add: rotateBlueprintKey_def)

lemma extractPages_failed_attempt:
  assumes le: "attempt \<le> maxRetries"
    and fails: "attempt_fails JSON_parse (llm w (llm_calls w))"
  shows "\<exists>w'. llm w' = llm w \<and> llm_calls w' = llm_calls w + 1 \<and>
           extractPages_loop JSON_parse attempt w = extractPages_loop JSON_parse (attempt + 1) w'"
proof -
  let ?w1 = "w\<lparr>llm_calls := llm_calls w + 1\<rparr>"
  note unfold = extractPages_loop.simps[of JSON_parse attempt w]
  show ?thesis
  proof (cases "llm w (llm_calls w)")
    case (Throws msg)
    then have "extractPages_loop JSON_parse attempt w =
        extractPages_loop JSON_parse (attempt + 1) (rotateBlueprintKey ?w1)"
      using unfold le by (simp add: request_def)
    then show ?thesis
      by (intro exI[of _ "rotateBlueprintKey ?w1"]) simp
  next
    case (Content c)
    let ?text = "case c of None \<Rightarrow> ''[]'' | Some t \<Rightarrow> if t = [] then ''[]'' else t"
    show ?thesis
    proof (cases "jsonMatch ?text")
      case None
      then have "extractPages_loop JSON_parse attempt w =
          extractPages_loop JSON_parse (attempt + 1) ?w1"
        using unfold le Content by (simp add: request_def)
      then show ?thesis
        by (intro exI[of _ ?w1]) simp
    next
      case (Some m)
      with fails Content have "JSON_parse m = None"
        by (simp add: attempt_fails_def)
      with Some have "extractPages_loop JSON_parse attempt w =
          extractPages_loop JSON_parse (attempt + 1) (rotateBlueprintKey ?w1)"
        using unfold le Content by (simp add: request_def)
      then show ?thesis
        by (intro exI[of _ "rotateBlueprintKey ?w1"]) simp
    qed
  qed
qed

lemma extractPages_loop_exhausted:
  assumes "n = maxRetries + 1 - attempt"
    and "\<forall>k<n. attempt_fails JSON_parse (llm w (llm_calls w + k))"
  shows "fst (extractPages_loop JSON_parse attempt w) = fallback_pages
         \<and> llm_calls (snd (extractPages_loop JSON_parse attempt w)) = llm_calls w + n"
  using assms
proof (induction n arbitrary: attempt w)
  case 0
  then have "\<not> attempt \<le> maxRetries" by simp
  then show ?case
    using extractPages_loop.simps[of JSON_parse attempt w] by simp
next
  case (Suc n)
  then have le: "attempt \<le> maxRetries" and n: "n = maxRetries + 1 - (attempt + 1)" by simp_all
  from Suc.prems(2) have first: "attempt_fails JSON_parse (llm w (llm_calls w))"
    by (metis add.right_neutral zero_less_Suc)
  from extractPages_failed_attempt[OF le first]
  obtain w' where w': "llm w' = llm w" "llm_calls w' = llm_calls w + 1"
    and step: "extractPages_loop JSON_parse attempt w = extractPages_loop JSON_parse (attempt + 1) w'"
    by blast
  have rest: "\<forall>k<n. attempt_fails JSON_parse (llm w' (llm_calls w' + k))"
  proof (intro allI impI)
    fix k assume "k < n"
    then have "Suc k < Suc n" by simp
    with Suc.prems(2) have "attempt_fails JSON_parse (llm w (llm_calls w + Suc k))" by blast
    with w' show "attempt_fails JSON_parse (llm w' (llm_calls w' + k))" by simp
  qed
  from Suc.IH[OF n rest] step w' show ?case by simp
qed

text \<open>
  Claim C7. When each of the three attempts of the page extraction fails (the request
  throws, the completion holds no bracketed part, or parsing it throws), the stage
  returns the fixed two-page set, a \<open>HomePage\<close> with route \<open>/\<close> and a \<open>NotFoundPage\<close> with
  route \<open>*\<close>, after exactly three requests, instead of failing.
\<close>

theorem page_extraction_fallback:
  assumes "\<forall>k<3. attempt_fails JSON_parse (llm w (llm_calls w + k))"
  shows "fst (extractPagesWithLLM JSON_parse w) =
           JArr [JObj [(''name'', JStr ''HomePage''), (''route'', JStr ''/''),
                       (''description'', JStr ''Main landing page''),
                       (''sections'', JArr [JStr ''Hero'', JStr ''Features'', JStr ''CTA'']),
                       (''components'', JArr [JStr ''Hero'', JStr ''FeatureGrid''])],
                 JObj [(''name'', JStr ''NotFoundPage''), (''route'', JStr ''*''),
                       (''description'', JStr ''404 error page''),
                       (''sections'', JArr [JStr ''ErrorMessage'']),
                       (''components'', JArr [JStr ''ErrorDisplay''])]]
         \<and> llm_calls (snd (extractPagesWithLLM JSON_parse w)) = llm_calls w + 3"
  using extractPages_loop_exhausted[of 3 1 JSON_parse w] assms
  by (simp add: extractPagesWithLLM_def maxRetries_def fallback_pages_def page_def)

theorem page_extraction_fallback_witness:
  "attempt_fails sample_parse (Throws ''503 overloaded'')
   \<and> attempt_fails sample_parse (Content (Some ''Sorry, no pages''))
   \<and> attempt_fails sample_parse (Content (Some ''[ {name: HomePage} ]''))
   \<and> fst (extractPagesWithLLM sample_parse
        (sample_world\<lparr>llm := (\<lambda>k. if k = 0 then Throws ''503 overloaded''
                                  else if k = 1 then Content (Some ''Sorry, no pages'')
                                  else Content (Some ''[ {name: HomePage} ]''))\<rparr>))
      = fallback_pages"
proof -
  let ?w = "sample_world\<lparr>llm := (\<lambda>k. if k = 0 then Throws ''503 overloaded''
                                  else if k = 1 then Content (Some ''Sorry, no pages'')
                                  else Content (Some ''[ {name: HomePage} ]''))\<rparr>"
  have a: "attempt_fails sample_parse (Throws ''503 overloaded'')"
    "attempt_fails sample_parse (Content (Some ''Sorry, no pages''))"
    "attempt_fails sample_parse (Content (Some ''[ {name: HomePage} ]''))"
    by (simp_all add: attempt_fails_def jsonMatch_def sample_parse_def)
  have h: "\<forall>k<3. attempt_fails sample_parse (llm ?w (llm_calls ?w + k))"
    using a by (simp add: sample_world_def)
  from page_extraction_fallback[OF h] a show ?thesis
    by (simp add: fallback_pages_def page_def)
qed

section \<open>Lifecycle of the notification channel\<close>

text \<open>
  Claim C8. One call of \<open>generateWebsite\<close> runs the graph in a world where the two
  listeners passed to it are registered, and hands back a world where both are unset,
  whether the run ended with a result or with a thrown error.
\<close>

theorem callbacks_cleared:
  "\<exists>r w2. invoke limit st (initialState prompt ptype)
              (w\<lparr>globalFileCallback := onFileGenerated, globalPhaseCallback := onPhaseChange\<rparr>)
            = (r, w2)
     \<and> snd (generateWebsite limit st prompt ptype onFileGenerated onPhaseChange w)
         = w2\<lparr>globalFileCallback := None, globalPhaseCallback := None\<rparr>
     \<and> (case r of
           Inl error \<Rightarrow>
             fst (generateWebsite limit st prompt ptype onFileGenerated onPhaseChange w) = Inl error
         | Inr result \<Rightarrow>
             fst (generateWebsite limit st prompt ptype onFileGenerated onPhaseChange w)
               = Inr \<lparr> r_files = files result, r_errors = errors result,
                       r_messages = messages result \<rparr>)
     \<and> globalFileCallback
           (snd (generateWebsite limit st prompt ptype onFileGenerated onPhaseChange w)) = None
     \<and> globalPhaseCallback
           (snd (generateWebsite limit st prompt ptype onFileGenerated onPhaseChange w)) = None"
  by (auto simp: generateWebsite_def setFileCallback_def setPhaseCallback_def Let_def
      split: prod.splits sum.splits)

lemmas run_defs = invoke_def intentRouterNode_def validationNode_def repairNode_def
  failing_checks_def broken_core_def idle_stage_def initialState_def merge_def replace_with_def
  replace_opt_def empty_update_def route_validation_def validation_path_map_def
  route_intent_def intent_path_map_def notifyFileCreated_def sample_world_def

theorem callbacks_cleared_witness:
  "(\<exists>res w'. generateWebsite 25 failing_checks ''a bakery site'' Frontend (Some 7) (Some 8)
        sample_world = (Inr res, w')
      \<and> globalFileCallback w' = None \<and> globalPhaseCallback w' = None
      \<and> file_events w' = [(7, sample_file)] \<and> r_errors res = [sample_error])
   \<and> (\<exists>w'. generateWebsite 25 broken_core ''a bakery site'' Frontend (Some 7) (Some 8)
        sample_world = (Inl (Error ''generation exhausted''), w')
      \<and> globalFileCallback w' = None \<and> globalPhaseCallback w' = None)"
proof -
  let ?w1 = "sample_world\<lparr>globalFileCallback := Some 7, globalPhaseCallback := Some 8\<rparr>"
  let ?s = "initialState ''a bakery site'' Frontend"
  have ok: "\<exists>final w2. invoke 25 failing_checks ?s ?w1 = (Inr final, w2)
      \<and> errors final = [sample_error] \<and> file_events w2 = [(7, sample_file)]"
    by (simp add: eval_nat_numeral run_defs)
  have bad: "\<exists>w2. invoke 25 broken_core ?s ?w1 = (Inl (Error ''generation exhausted''), w2)"
    by (simp add: eval_nat_numeral run_defs)
  from callbacks_cleared[where limit = 25 and st = failing_checks and prompt = "''a bakery site''"
      and ptype = Frontend and w = sample_world and onFileGenerated = "Some 7"
      and onPhaseChange = "Some 8"] ok
  have first: "\<exists>res w'. generateWebsite 25 failing_checks ''a bakery site'' Frontend (Some 7) (Some 8)
        sample_world = (Inr res, w')
      \<and> globalFileCallback w' = None \<and> globalPhaseCallback w' = None
      \<and> file_events w' = [(7, sample_file)] \<and> r_errors res = [sample_error]"
    by (cases "generateWebsite 25 failing_checks ''a bakery site'' Frontend (Some 7) (Some 8) sample_world")
      auto
  from callbacks_cleared[where limit = 25 and st = broken_core and prompt = "''a bakery site''"
      and ptype = Frontend and w = sample_world and onFileGenerated = "Some 7"
      and onPhaseChange = "Some 8"] bad
  have second: "\<exists>w'. generateWebsite 25 broken_core ''a bakery site'' Frontend (Some 7) (Some 8)
        sample_world = (Inl (Error ''generation exhausted''), w')
      \<and> globalFileCallback w' = None \<and> globalPhaseCallback w' = None"
    by (cases "generateWebsite 25 broken_core ''a bakery site'' Frontend (Some 7) (Some 8) sample_world")
      auto
  from first second show ?thesis by blast
qed

section \<open>The selection cache of the UI service\<close>

lemma map_of_upsert_same: "map_of (upsert k v kvs) k = Some v"
  by (induction kvs) auto

lemma after_error_fields [simp]:
  "llm (after_error msg w) = llm w" "llm_calls (after_error msg w) = llm_calls w"
  "selectionCache (after_error msg w) = selectionCache w"
  by (simp_all add: after_error_def rotateUiKey_def)

text \<open>One attempt of the selection loop: either it succeeds and stores, or it goes on.\<close>

lemma selectComponents_attempt:
  assumes le: "attempt \<le> maxRetries"
  shows "(attempt_succeeds build (llm w (llm_calls w)) \<and>
          (\<exists>result w'. selectComponents_loop build cacheKey attempt w = (result, w')
              \<and> map_of (selectionCache w') cacheKey = Some result))
       \<or> (\<not> attempt_succeeds build (llm w (llm_calls w)) \<and>
          (\<exists>w'. llm w' = llm w \<and> llm_calls w' = llm_calls w + 1
              \<and> selectionCache w' = selectionCache w
              \<and> selectComponents_loop build cacheKey attempt w
                  = selectComponents_loop build cacheKey (attempt + 1) w'))"
proof -
  let ?w1 = "w\<lparr>llm_calls := llm_calls w + 1\<rparr>"
  note unfold = selectComponents_loop.simps[of build cacheKey attempt w]
  show ?thesis
  proof (cases "llm w (llm_calls w)")
    case (Throws msg)
    then have "selectComponents_loop build cacheKey attempt w =
        selectComponents_loop build cacheKey (attempt + 1) (after_error msg ?w1)"
      using unfold le by (simp add: request_def)
    moreover have "\<not> attempt_succeeds build (llm w (llm_calls w))"
      using Throws by (simp add: attempt_succeeds_def)
    ultimately show ?thesis
      by (intro disjI2 conjI exI[of _ "after_error msg ?w1"]) simp_all
  next
    case (Content c)
    let ?text = "case c of None \<Rightarrow> default_selection_text
                 | Some t \<Rightarrow> if t = [] then default_selection_text else t"
    show ?thesis
    proof (cases "build ?text")
      case (Inl msg)
      then have "selectComponents_loop build cacheKey attempt w =
          selectComponents_loop build cacheKey (attempt + 1) (after_error msg ?w1)"
        using unfold le Content by (simp add: request_def)
      moreover have "\<not> attempt_succeeds build (llm w (llm_calls w))"
        using Content Inl by (simp add: attempt_succeeds_def)
      ultimately show ?thesis
        by (intro disjI2 conjI exI[of _ "after_error msg ?w1"]) simp_all
    next
      case (Inr result)
      then have "selectComponents_loop build cacheKey attempt w =
          (result, ?w1\<lparr>selectionCache := upsert cacheKey result (selectionCache ?w1)\<rparr>)"
        using unfold le Content by (simp add: request_def)
      moreover have "attempt_succeeds build (llm w (llm_calls w))"
        using Content Inr by (simp add: attempt_succeeds_def)
      ultimately show ?thesis
        by (intro disjI1) (simp add: map_of_upsert_same)
    qed
  qed
qed


lemma selectComponents_loop_exhausted:
  assumes "n = maxRetries + 1 - attempt"
    and "\<forall>k<n. \<not> attempt_succeeds build (llm w (llm_calls w + k))"
  shows "fst (selectComponents_loop build cacheKey attempt w) = empty_selection
       \<and> selectionCache (snd (selectComponents_loop build cacheKey attempt w)) = selectionCache w
       \<and> llm_calls (snd (selectComponents_loop build cacheKey attempt w)) = llm_calls w + n"
  using assms
proof (induction n arbitrary: attempt w)
  case 0
  then have "\<not> attempt \<le> maxRetries" by simp
  then show ?case
    using selectComponents_loop.simps[of build cacheKey attempt w] by simp
next
  case (Suc n)
  then have le: "attempt \<le> maxRetries" and n: "n = maxRetries + 1 - (attempt + 1)" by simp_all
  from Suc.prems(2) have nofirst: "\<not> attempt_succeeds build (llm w (llm_calls w))"
    by (metis add.right_neutral zero_less_Suc)
  with selectComponents_attempt[OF le, of build w cacheKey]
  obtain v where v: "llm v = llm w" "llm_calls v = llm_calls w + 1"
      "selectionCache v = selectionCache w"
    and step: "selectComponents_loop build cacheKey attempt w
                  = selectComponents_loop build cacheKey (attempt + 1) v"
    by blast
  have rest: "\<forall>k<n. \<not> attempt_succeeds build (llm v (llm_calls v + k))"
  proof (intro allI impI)
    fix k assume "k < n"
    then have "Suc k < Suc n" by simp
    with Suc.prems(2) have "\<not> attempt_succeeds build (llm w (llm_calls w + Suc k))" by blast
    with v show "\<not> attempt_succeeds build (llm v (llm_calls v + k))" by simp
  qed
  from Suc.IH[OF n rest] step v show ?case by simp
qed



text \<open>
  Claim C10. \<open>selectComponents\<close> returns a value on every path: each throwing step of an
  attempt lies inside the \<open>try\<close> block and is caught. When the key is not cached and all
  three attempts fail, the value is the empty selection, three requests have been
  issued, and the cache is as it was: the failure result is not stored.
\<close>

theorem selection_failure_not_cached:
  assumes miss: "map_of (selectionCache w) (trim requirements) = None"
    and failed: "\<forall>k<3. \<not> attempt_succeeds build (llm w (llm_calls w + k))"
  shows "fst (selectComponents build requirements w)
           = \<lparr> selectedComponents = [], formattedForPrompt = [] \<rparr>
       \<and> selectionCache (snd (selectComponents build requirements w)) = selectionCache w
       \<and> llm_calls (snd (selectComponents build requirements w)) = llm_calls w + 3"
  using selectComponents_loop_exhausted[of 3 1 build w "trim requirements"] assms
  by (simp add: selectComponents_def Let_def maxRetries_def empty_selection_def)


theorem selection_failure_not_cached_witness:
  "fst (selectComponents sample_build ''bakery site'' sample_world) = empty_selection
   \<and> selectionCache (snd (selectComponents sample_build ''bakery site'' sample_world)) = []
   \<and> llm_calls (snd (selectComponents sample_build ''bakery site'' sample_world)) = 3"
proof -
  have miss: "map_of (selectionCache sample_world) (trim ''bakery site'') = None"
    by (simp add: sample_world_def)
  have failed: "\<forall>k<3. \<not> attempt_succeeds sample_build
      (llm sample_world (llm_calls sample_world + k))"
    by (simp add: sample_world_def attempt_succeeds_def)
  from selection_failure_not_cached[OF miss failed] show ?thesis
    by (simp add: empty_selection_def sample_world_def)
qed

end
